theory Spec2Isabelle
  imports Main
begin

section \<open>Exceptions\<close>

text \<open>
  The script \<^verbatim>\<open>update.py\<close> signals every failure by a Python exception. An exception is
  a value here, and a computation that may raise has a result of type \<open>exn + 'a\<close>
  (\<open>Inl\<close> the exception). Exceptions raised inside the external collaborators (urllib,
  json, codecs, jinja2) are kept apart from the ones the script's own statements raise:
  the only thing the script ever asks about them is whether they are instances of
  \<^verbatim>\<open>URLError\<close> (line 50).
\<close>

datatype ext_exn =
    URLError string     \<comment> \<open>\<^verbatim>\<open>urllib.error.URLError\<close>, with its reason\<close>
  | HTTPError nat       \<comment> \<open>\<^verbatim>\<open>urllib.error.HTTPError\<close>, a subclass of \<^verbatim>\<open>URLError\<close>, with its status\<close>
  | OtherExn string     \<comment> \<open>any other exception class, by name\<close>

fun is_URLError :: "ext_exn \<Rightarrow> bool" where
  "is_URLError (URLError _) = True"
| "is_URLError (HTTPError _) = True"
| "is_URLError (OtherExn _) = False"

datatype exn =
    ValueError string      \<comment> \<open>\<^verbatim>\<open>raise ValueError(msg)\<close> at lines 39, 61 and 69, with its message\<close>
  | InvalidLiteral string  \<comment> \<open>the \<^verbatim>\<open>ValueError\<close> of \<^verbatim>\<open>int(s)\<close>, with the rejected literal\<close>
  | TypeError              \<comment> \<open>a call with missing arguments, or subscripting a non-mapping\<close>
  | KeyError string        \<comment> \<open>a missing dictionary key\<close>
  | AttributeError         \<comment> \<open>\<^verbatim>\<open>.split\<close> on a value that is not a string\<close>
  | External ext_exn       \<comment> \<open>an exception that left an external collaborator\<close>

section \<open>The Python built-ins used by \<^verbatim>\<open>Version\<close>\<close>

text \<open>
  Strings are lists of 8-bit characters: the model covers the strings whose code points
  are below 256. Integers are unbounded, as Python's are; the limit that later
  interpreters put on the length of a decimal conversion (4300 digits unless configured
  otherwise) is not modelled.

  \<^verbatim>\<open>int(s)\<close> for a string, base 10: leading white space is skipped, then an optional
  sign, then decimal digits in which single underscores may separate two digits, then
  white space up to the end of the string. Anything else raises \<^verbatim>\<open>ValueError\<close>.
  Below code point 256 the white space that \<^verbatim>\<open>int\<close> skips is 9 to 13, 32, 133 and
  160, and the only decimal digits are \<^verbatim>\<open>0\<close> to \<^verbatim>\<open>9\<close>.
\<close>

definition is_space :: "char \<Rightarrow> bool" where
  "is_space c \<longleftrightarrow> (of_char c :: nat) \<in> {9, 10, 11, 12, 13, 32, 133, 160}"

definition is_digit :: "char \<Rightarrow> bool" where
  "is_digit c \<longleftrightarrow> 48 \<le> (of_char c :: nat) \<and> (of_char c :: nat) \<le> 57"

definition digit_val :: "char \<Rightarrow> int" where
  "digit_val c = int (of_char c) - 48"

text \<open>
  The digit loop: \<open>scan_digits acc s\<close> reads digits and underscores from the front of
  \<open>s\<close> and returns the value read and the rest of the string. An underscore that is not
  followed by a digit is an error.
\<close>

fun scan_digits :: "int \<Rightarrow> string \<Rightarrow> (int \<times> string) option" where
  "scan_digits acc [] = Some (acc, [])"
| "scan_digits acc (c # cs) =
     (if is_digit c then scan_digits (acc * 10 + digit_val c) cs
      else if c = CHR ''_'' then
        (case cs of
           [] \<Rightarrow> None
         | d # ds \<Rightarrow> if is_digit d then scan_digits (acc * 10 + digit_val d) ds else None)
      else Some (acc, c # cs))"

definition strip_sign :: "string \<Rightarrow> bool \<times> string" where
  "strip_sign s =
     (case s of
        [] \<Rightarrow> (False, [])
      | c # cs \<Rightarrow> if c = CHR ''-'' then (True, cs)
                 else if c = CHR ''+'' then (False, cs)
                 else (False, c # cs))"

definition py_int :: "string \<Rightarrow> exn + int" where
  "py_int s =
     (let (neg, ds) = strip_sign (dropWhile is_space s) in
      case ds of
        [] \<Rightarrow> Inl (InvalidLiteral s)
      | c # _ \<Rightarrow>
          if \<not> is_digit c then Inl (InvalidLiteral s)
          else (case scan_digits 0 ds of
                  None \<Rightarrow> Inl (InvalidLiteral s)
                | Some (n, rest) \<Rightarrow>
                    if dropWhile is_space rest = [] then Inr (if neg then - n else n)
                    else Inl (InvalidLiteral s)))"

text \<open>
  \<^verbatim>\<open>str(i)\<close> for an integer, which is also what an f-string field \<^verbatim>\<open>{i}\<close> renders: the
  decimal digits without leading zeros, after a minus sign when \<open>i\<close> is negative.
\<close>

definition digit_char :: "nat \<Rightarrow> char" where
  "digit_char d = char_of (48 + d)"

fun nat_digits :: "nat \<Rightarrow> string" where
  "nat_digits n = (if n < 10 then [digit_char n] else nat_digits (n div 10) @ [digit_char (n mod 10)])"

declare nat_digits.simps [simp del]

definition py_str :: "int \<Rightarrow> string" where
  "py_str i = (if i < 0 then CHR ''-'' # nat_digits (nat (- i)) else nat_digits (nat i))"

text \<open>
  \<^verbatim>\<open>s.split(sep, maxsplit)\<close> for a separator of one character: the string is cut at the
  leftmost occurrences of \<open>sep\<close>, at most \<open>maxsplit\<close> of them; a negative \<open>maxsplit\<close>
  (Python's default is \<open>-1\<close>) puts no limit. The result is never empty.
\<close>

fun split :: "char \<Rightarrow> int \<Rightarrow> string \<Rightarrow> string list" where
  "split sep n [] = [[]]"
| "split sep n (c # cs) =
     (if c = sep \<and> n \<noteq> 0 then [] # split sep (n - 1) cs
      else (let ps = split sep n cs in (c # hd ps) # tl ps))"

section \<open>\<^verbatim>\<open>Version\<close> (lines 18 to 28)\<close>

text \<open>
  \<^verbatim>\<open>class Version(NamedTuple)\<close> with the fields \<^verbatim>\<open>major\<close>, \<^verbatim>\<open>minor\<close>, \<^verbatim>\<open>hotfix\<close>. The
  annotations \<^verbatim>\<open>int\<close> are not enforced at run time; every value the script builds
  holds integers.
\<close>

datatype Version = Version (major: int) (minor: int) (hotfix: int)

text \<open>
  \<^verbatim>\<open>Version(*args)\<close>: the constructor takes exactly three positional arguments. The
  iterable is exhausted before the call, so an exception of \<^verbatim>\<open>int\<close> comes first
  (\<open>map_int\<close>), and only then the \<^verbatim>\<open>TypeError\<close> of a wrong number of arguments.
\<close>

fun map_int :: "string list \<Rightarrow> exn + int list" where
  "map_int [] = Inr []"
| "map_int (p # ps) =
     (case py_int p of
        Inl e \<Rightarrow> Inl e
      | Inr i \<Rightarrow> (case map_int ps of Inl e \<Rightarrow> Inl e | Inr is \<Rightarrow> Inr (i # is)))"

fun Version_new :: "int list \<Rightarrow> exn + Version" where
  "Version_new [a, b, c] = Inr (Version a b c)"
| "Version_new _ = Inl TypeError"

text \<open>Line 25: \<^verbatim>\<open>Version(*map(int, s.split('.', maxsplit=2)))\<close>.\<close>

definition parse :: "string \<Rightarrow> exn + Version" where
  "parse s =
     (case map_int (split (CHR ''.'') 2 s) of
        Inl e \<Rightarrow> Inl e
      | Inr is \<Rightarrow> Version_new is)"

text \<open>Line 28: \<^verbatim>\<open>f'{self.major}.{self.minor}.{self.hotfix}'\<close>.\<close>

definition Version_str :: "Version \<Rightarrow> string" where
  "Version_str v = py_str (major v) @ ''.'' @ py_str (minor v) @ ''.'' @ py_str (hotfix v)"




section \<open>The outside world\<close>

text \<open>
  The script talks to the network (\<^verbatim>\<open>urlopen\<close>), the file system (\<^verbatim>\<open>os.path.exists\<close>),
  the template engine (jinja2), the JSON and UTF-8 decoders and the clock. None of them
  is part of the script; they are the fields of a record \<open>world\<close> that every effectful
  function takes. What the network, the file system, the template loader and the clock
  answer may depend on everything that happened before, so they also take the trace of
  the events so far (most recent first). An effectful function maps the trace to its
  result and the extended trace.
\<close>

datatype request =
    GET string     \<comment> \<open>\<^verbatim>\<open>urlopen(url)\<close>\<close>
  | HEAD string    \<comment> \<open>\<^verbatim>\<open>urlopen(Request(url, method='HEAD'))\<close>\<close>

record response =
  body :: string   \<comment> \<open>the bytes that \<^verbatim>\<open>r.read()\<close> returns\<close>

datatype json =
    JObject "(string \<times> json) list"   \<comment> \<open>a \<^verbatim>\<open>dict\<close>, as the list of its items\<close>
  | JString string
  | JArray "json list"
  | JAtom string                      \<comment> \<open>a number, \<^verbatim>\<open>true\<close>, \<^verbatim>\<open>false\<close> or \<^verbatim>\<open>null\<close>, as its text\<close>

datatype binding_value =
    VVersion Version
  | VStr string

type_synonym template = string

datatype event =
    Urlopen request
  | PathExists string
  | GetTemplate string
  | Utcnow
  | Render template "(string \<times> binding_value) list"
  | Print string

record world =
  urlopen :: "event list \<Rightarrow> request \<Rightarrow> ext_exn + response"
  decode_utf8 :: "string \<Rightarrow> ext_exn + string"                 \<comment> \<open>\<^verbatim>\<open>bytes.decode('utf-8')\<close>\<close>
  json_loads :: "string \<Rightarrow> ext_exn + json"                    \<comment> \<open>\<^verbatim>\<open>json.load\<close> on a body\<close>
  os_path_exists :: "event list \<Rightarrow> string \<Rightarrow> bool"            \<comment> \<open>\<^verbatim>\<open>os.path.exists\<close>, from the working directory\<close>
  env_get_template :: "event list \<Rightarrow> string \<Rightarrow> ext_exn + template"
      \<comment> \<open>\<^verbatim>\<open>env.get_template\<close>, loading from \<^verbatim>\<open>os.path.dirname(__file__)\<close>\<close>
  template_render :: "template \<Rightarrow> (string \<times> binding_value) list \<Rightarrow> ext_exn + string"
  utcnow_isoformat :: "event list \<Rightarrow> string"                  \<comment> \<open>\<^verbatim>\<open>datetime.utcnow().isoformat()\<close>\<close>

type_synonym 'a io = "event list \<Rightarrow> (exn + 'a) \<times> event list"

definition io_return :: "'a \<Rightarrow> 'a io" where
  "io_return x tr = (Inr x, tr)"

definition io_raise :: "exn \<Rightarrow> 'a io" where
  "io_raise e tr = (Inl e, tr)"

definition io_bind :: "'a io \<Rightarrow> ('a \<Rightarrow> 'b io) \<Rightarrow> 'b io" where
  "io_bind m f tr = (case m tr of (Inl e, tr') \<Rightarrow> (Inl e, tr') | (Inr x, tr') \<Rightarrow> f x tr')"

definition io_lift :: "exn + 'a \<Rightarrow> 'a io" where
  "io_lift r tr = (r, tr)"

definition external :: "ext_exn + 'a \<Rightarrow> exn + 'a" where
  "external r = (case r of Inl e \<Rightarrow> Inl (External e) | Inr x \<Rightarrow> Inr x)"

text \<open>\<^verbatim>\<open>urlopen(req)\<close> where the script does not catch anything.\<close>

definition do_urlopen :: "world \<Rightarrow> request \<Rightarrow> response io" where
  "do_urlopen w req tr = (external (urlopen w tr req), Urlopen req # tr)"

section \<open>The functions of \<^verbatim>\<open>update.py\<close>\<close>

text \<open>
  Lines 12 to 15. The keys are plain tuples; a \<^verbatim>\<open>Version\<close> is a tuple too, and is
  looked up by the tuple of its fields.
\<close>

definition JDK_URLS :: "int \<times> int \<times> int \<rightharpoonup> string" where
  "JDK_URLS = map_of
     [((12, 0, 1), ''https://download.java.net/java/GA/jdk12.0.1/69cfe15208a647278a19ef0990eea691/12/GPL/openjdk-12.0.1_linux-x64_bin.tar.gz''),
      ((11, 0, 1), ''https://download.java.net/java/GA/jdk11/13/GPL/openjdk-11.0.1_linux-x64_bin.tar.gz'')]"

definition as_tuple :: "Version \<Rightarrow> int \<times> int \<times> int" where
  "as_tuple v = (major v, minor v, hotfix v)"

text \<open>
  Lines 31 to 34. \<^verbatim>\<open>d['crash']\<close> raises \<^verbatim>\<open>KeyError\<close> on a dictionary without the key
  and \<^verbatim>\<open>TypeError\<close> on a value that is not a dictionary; \<^verbatim>\<open>Version.parse\<close> needs a
  string.
\<close>

definition getitem :: "json \<Rightarrow> string \<Rightarrow> exn + json" where
  "getitem d k =
     (case d of
        JObject items \<Rightarrow> (case map_of items k of None \<Rightarrow> Inl (KeyError k) | Some x \<Rightarrow> Inr x)
      | _ \<Rightarrow> Inl TypeError)"

definition parse_json :: "json \<Rightarrow> exn + Version" where
  "parse_json x = (case x of JString s \<Rightarrow> parse s | _ \<Rightarrow> Inl AttributeError)"

definition latest_crash :: "world \<Rightarrow> Version io" where
  "latest_crash w =
     io_bind (do_urlopen w (GET ''https://crate.io/versions.json'')) (\<lambda>r.
     io_bind (io_lift (external (json_loads w (body r)))) (\<lambda>d.
     io_bind (io_lift (getitem d ''crash'')) (\<lambda>x.
     io_lift (parse_json x))))"

text \<open>Lines 37 to 43.\<close>

definition jdk_url_and_sha :: "world \<Rightarrow> Version \<Rightarrow> (string \<times> string) io" where
  "jdk_url_and_sha w jdk_version =
     (case JDK_URLS (as_tuple jdk_version) of
        None \<Rightarrow> io_raise (ValueError (''No URL for JDK version '' @ Version_str jdk_version @ '' found.''))
      | Some url \<Rightarrow>
          io_bind (do_urlopen w (GET (url @ ''.sha256''))) (\<lambda>r.
          io_bind (io_lift (external (decode_utf8 w (body r)))) (\<lambda>sha256.
          io_return (url, sha256))))"

text \<open>
  Lines 46 to 51. The \<^verbatim>\<open>except\<close> clause names \<^verbatim>\<open>URLError\<close>: an exception of that class
  (or of its subclass \<^verbatim>\<open>HTTPError\<close>) becomes \<^verbatim>\<open>False\<close>, any other exception leaves
  the function.
\<close>

definition url_exists :: "world \<Rightarrow> string \<Rightarrow> bool io" where
  "url_exists w url tr =
     (case urlopen w tr (HEAD url) of
        Inr r \<Rightarrow> (Inr True, Urlopen (HEAD url) # tr)
      | Inl e \<Rightarrow> (if is_URLError e then Inr False else Inl (External e), Urlopen (HEAD url) # tr))"

text \<open>
  Lines 54 to 61. \<^verbatim>\<open>not crash_version\<close> holds for \<^verbatim>\<open>None\<close> only: a \<^verbatim>\<open>Version\<close> is a
  tuple of three items, and a tuple that is not empty is true.
\<close>

definition crash_url :: "Version \<Rightarrow> string" where
  "crash_url v = ''https://cdn.crate.io/downloads/releases/crash_standalone_'' @ Version_str v"

definition ensure_existing_crash :: "world \<Rightarrow> Version option \<Rightarrow> Version io" where
  "ensure_existing_crash w crash_version =
     (case crash_version of
        None \<Rightarrow> latest_crash w
      | Some v \<Rightarrow>
          io_bind (url_exists w (crash_url v)) (\<lambda>found.
          if found then io_return v
          else io_raise (ValueError (''No release found for crash '' @ Version_str v))))"

text \<open>Lines 64 to 69.\<close>

definition cratedb_url :: "Version \<Rightarrow> string" where
  "cratedb_url v = ''https://cdn.crate.io/downloads/releases/crate-'' @ Version_str v @ ''.tar.gz''"

definition ensure_existing_cratedb :: "world \<Rightarrow> Version \<Rightarrow> Version io" where
  "ensure_existing_cratedb w v =
     io_bind (url_exists w (cratedb_url v)) (\<lambda>found.
     if found then io_return v
     else io_raise (ValueError (''No release found for CrateDB '' @ Version_str v)))"

text \<open>Lines 72 to 75.\<close>

definition versioned_template :: "Version \<Rightarrow> string" where
  "versioned_template v = ''Dockerfile_'' @ py_str (major v) @ ''.'' @ py_str (minor v) @ ''.j2''"

definition find_template_for_version :: "world \<Rightarrow> Version \<Rightarrow> string io" where
  "find_template_for_version w v tr =
     (Inr (if os_path_exists w tr (versioned_template v) then versioned_template v
           else ''Dockerfile.j2''),
      PathExists (versioned_template v) # tr)"

text \<open>
  Lines 78 to 101. \<open>args\<close> is the namespace that \<^verbatim>\<open>parser.parse_args()\<close> returns: the
  three version options have gone through \<^verbatim>\<open>Version.parse\<close>, an option that was not
  given is \<^verbatim>\<open>None\<close>.
\<close>

record args =
  cratedb_version :: Version
  crash_version :: "Version option"
  jdk_version :: "Version option"
  template :: "string option"

text \<open>Line 87.\<close>

definition jdk_version_default :: "Version \<Rightarrow> Version" where
  "jdk_version_default cratedb = (if major cratedb \<ge> 4 then Version 12 0 1 else Version 11 0 1)"

text \<open>
  Line 88, \<^verbatim>\<open>args.jdk_version or jdk_version_default\<close>: the left operand when it is
  true, which a \<^verbatim>\<open>Version\<close> always is and \<^verbatim>\<open>None\<close> never.
\<close>

definition resolve_jdk_version :: "Version option \<Rightarrow> Version \<Rightarrow> Version" where
  "resolve_jdk_version given cratedb =
     (case given of None \<Rightarrow> jdk_version_default cratedb | Some v \<Rightarrow> v)"

text \<open>
  Line 90, \<^verbatim>\<open>args.template or find_template_for_version(cratedb_version)\<close>: the right
  operand is evaluated when the left one is \<^verbatim>\<open>None\<close> or the empty string.
\<close>

definition select_template :: "world \<Rightarrow> string option \<Rightarrow> Version \<Rightarrow> string io" where
  "select_template w given cratedb =
     (case given of
        None \<Rightarrow> find_template_for_version w cratedb
      | Some t \<Rightarrow> if t \<noteq> [] then io_return t else find_template_for_version w cratedb)"

definition get_template :: "world \<Rightarrow> string \<Rightarrow> template io" where
  "get_template w name tr = (external (env_get_template w tr name), GetTemplate name # tr)"

definition utcnow :: "world \<Rightarrow> string io" where
  "utcnow w tr = (Inr (utcnow_isoformat w tr), Utcnow # tr)"

definition render :: "world \<Rightarrow> template \<Rightarrow> (string \<times> binding_value) list \<Rightarrow> string io" where
  "render w t bindings tr = (external (template_render w t bindings), Render t bindings # tr)"

definition print :: "string \<Rightarrow> unit io" where
  "print text tr = (Inr (), Print text # tr)"

text \<open>
  The keyword arguments of \<^verbatim>\<open>template.render\<close> are evaluated from left to right before
  the call, so the second existence check of the database release (line 95) and the
  resolution of the client version (line 96) come after the template was loaded and
  before anything is rendered.
\<close>

definition main :: "world \<Rightarrow> args \<Rightarrow> unit io" where
  "main w a =
     io_bind (ensure_existing_cratedb w (cratedb_version a)) (\<lambda>cratedb.
     io_bind (jdk_url_and_sha w (resolve_jdk_version (jdk_version a) cratedb)) (\<lambda>(jdk_url, jdk_sha256).
     io_bind (select_template w (template a) cratedb) (\<lambda>name.
     io_bind (get_template w name) (\<lambda>t.
     io_bind (ensure_existing_cratedb w (cratedb_version a)) (\<lambda>crate.
     io_bind (ensure_existing_crash w (crash_version a)) (\<lambda>crash.
     io_bind (utcnow w) (\<lambda>now.
     io_bind (render w t
                [(''CRATE_VERSION'', VVersion crate),
                 (''CRASH_VERSION'', VVersion crash),
                 (''JDK_VERSION'', VStr (Version_str (resolve_jdk_version (jdk_version a) cratedb))),
                 (''JDK_URL'', VStr jdk_url),
                 (''JDK_SHA256'', VStr jdk_sha256),
                 (''BUILD_TIMESTAMP'', VStr now)]) (\<lambda>text.
     print text))))))))"

section \<open>Example worlds\<close>

text \<open>
  A world in which every request succeeds, the metadata document names the client
  release 0.24.2 and no versioned template exists; and the arguments
  \<^verbatim>\<open>--cratedb-version 4.1.0\<close>.
\<close>

definition world_ok :: world where
  "world_ok =
     \<lparr> urlopen = (\<lambda>tr req. Inr \<lparr> body = ''c0ffee'' \<rparr>),
       decode_utf8 = Inr,
       json_loads = (\<lambda>b. Inr (JObject [(''crash'', JString ''0.24.2'')])),
       os_path_exists = (\<lambda>tr p. False),
       env_get_template = (\<lambda>tr name. Inr ''FROM centos:7''),
       template_render = (\<lambda>t bs. Inr ''FROM centos:7''),
       utcnow_isoformat = (\<lambda>tr. ''2019-06-01T00:00:00'') \<rparr>"

definition args_410 :: args where
  "args_410 =
     \<lparr> cratedb_version = Version 4 1 0, crash_version = None, jdk_version = None,
       template = None \<rparr>"

text \<open>
  Variations: every request is answered by the status 404; every request ends with the
  server closing the connection before it answers, which \<^verbatim>\<open>http.client\<close> raises as
  \<^verbatim>\<open>RemoteDisconnected\<close> and \<^verbatim>\<open>urlopen\<close> does not wrap into a \<^verbatim>\<open>URLError\<close>; the
  versioned template of 4.1 exists.
\<close>

definition world_404 :: world where
  "world_404 = world_ok \<lparr> urlopen := (\<lambda>tr req. Inl (HTTPError 404)) \<rparr>"

definition world_disconnected :: world where
  "world_disconnected =
     world_ok \<lparr> urlopen := (\<lambda>tr req. Inl (OtherExn ''http.client.RemoteDisconnected'')) \<rparr>"


section \<open>Decimal numerals\<close>





lemma digit_val_range: "is_digit c \<Longrightarrow> 0 \<le> digit_val c \<and> digit_val c < 10"
  by (auto simp: is_digit_def digit_val_def)









subsection \<open>Splitting the text of a version\<close>

lemma split_no_sep: "sep \<notin> set a \<Longrightarrow> split sep n a = [a]"
  by (induction a) auto

lemma split_append_sep:
  "sep \<notin> set a \<Longrightarrow> n \<noteq> 0 \<Longrightarrow> split sep n (a @ sep # rest) = a # split sep (n - 1) rest"
  by (induction a) auto



subsection \<open>Canonical numerals\<close>












subsection \<open>What \<^verbatim>\<open>int\<close> accepts\<close>

lemma scan_digits_Some:
  "scan_digits acc ds = Some (n, rest) \<Longrightarrow>
     (\<forall>c \<in> set ds. is_digit c \<or> c = CHR ''_'' \<or> c \<in> set rest) \<and> (0 \<le> acc \<longrightarrow> 0 \<le> n)"
proof (induction acc ds rule: scan_digits.induct)
  case (1 acc)
  then show ?case by simp
next
  case (2 acc c cs)
  show ?case
  proof (cases "is_digit c")
    case True
    with "2.prems" "2.IH"(1) digit_val_range [of c] show ?thesis
      by auto
  next
    case False
    show ?thesis
    proof (cases "c = CHR ''_''")
      case under: True
      with False "2.prems" obtain d ds where cs: "cs = d # ds" and d: "is_digit d"
        and scan: "scan_digits (acc * 10 + digit_val d) ds = Some (n, rest)"
        by (auto split: list.splits if_splits)
      from "2.IH"(2) [OF False under cs d scan] d under cs digit_val_range [of d]
      show ?thesis
        by auto
    next
      case other: False
      with False "2.prems" show ?thesis
        by auto
    qed
  qed
qed

lemma py_int_Inl: "py_int s = Inl e \<Longrightarrow> e = InvalidLiteral s"
  by (auto simp: py_int_def split: prod.splits list.splits if_splits option.splits)

lemma py_int_InrD:
  assumes "py_int s = Inr i"
  obtains neg ds n rest where "strip_sign (dropWhile is_space s) = (neg, ds)"
    and "scan_digits 0 ds = Some (n, rest)" and "dropWhile is_space rest = []"
    and "i = (if neg then - n else n)"
proof -
  obtain neg ds where sign: "strip_sign (dropWhile is_space s) = (neg, ds)"
    by (cases "strip_sign (dropWhile is_space s)")
  with assms have "case scan_digits 0 ds of
                     None \<Rightarrow> False
                   | Some (n, rest) \<Rightarrow> dropWhile is_space rest = [] \<and> i = (if neg then - n else n)"
    by (simp add: py_int_def del: scan_digits.simps
        split: list.splits if_splits option.splits prod.splits)
  with sign that show ?thesis
    by (cases "scan_digits 0 ds") auto
qed

lemma strip_sign_chars:
  "strip_sign s = (neg, ds) \<Longrightarrow>
     set s \<subseteq> set ds \<union> {CHR ''+'', CHR ''-''} \<and> (neg \<longrightarrow> CHR ''-'' \<in> set s)"
  by (auto simp: strip_sign_def split: list.splits if_splits)

lemma py_int_chars:
  assumes "py_int s = Inr i" "c \<in> set s"
  shows "is_space c \<or> is_digit c \<or> c = CHR ''_'' \<or> c = CHR ''+'' \<or> c = CHR ''-''"
proof -
  from assms(1) obtain neg ds n rest
    where sign: "strip_sign (dropWhile is_space s) = (neg, ds)"
      and scan: "scan_digits 0 ds = Some (n, rest)"
      and rest: "dropWhile is_space rest = []"
    by (rule py_int_InrD)
  from rest have rest_space: "\<forall>x \<in> set rest. is_space x"
    by (simp add: dropWhile_eq_Nil_conv)
  from assms(2) have "c \<in> set (takeWhile is_space s) \<or> c \<in> set (dropWhile is_space s)"
    by (metis Un_iff set_append takeWhile_dropWhile_id)
  then show ?thesis
  proof
    assume "c \<in> set (takeWhile is_space s)"
    then show ?thesis by (auto dest: set_takeWhileD)
  next
    assume "c \<in> set (dropWhile is_space s)"
    with strip_sign_chars [OF sign] have "c \<in> set ds \<or> c = CHR ''+'' \<or> c = CHR ''-''"
      by auto
    with scan_digits_Some [OF scan] rest_space show ?thesis
      by auto
  qed
qed

lemma py_int_no_dot: "py_int s = Inr i \<Longrightarrow> CHR ''.'' \<notin> set s"
proof
  assume "py_int s = Inr i" "CHR ''.'' \<in> set s"
  from py_int_chars [OF this] show False
    by (simp add: is_space_def is_digit_def)
qed

lemma py_int_nonneg:
  assumes "py_int s = Inr i" "CHR ''-'' \<notin> set s"
  shows "0 \<le> i"
proof -
  from assms(1) obtain neg ds n rest
    where sign: "strip_sign (dropWhile is_space s) = (neg, ds)"
      and scan: "scan_digits 0 ds = Some (n, rest)"
      and i: "i = (if neg then - n else n)"
    by (rule py_int_InrD)
  from strip_sign_chars [OF sign] assms(2) have "\<not> neg"
    by (auto dest: set_dropWhileD)
  with scan_digits_Some [OF scan] i show ?thesis
    by simp
qed

subsection \<open>What \<open>parse\<close> accepts\<close>

lemma split_zero: "split sep 0 s = [s]"
  by (induction s) simp_all

lemma split_not_Nil: "split sep n s \<noteq> []"
  by (cases s) (simp_all add: Let_def)

lemma split_Cons:
  "split sep n s = p # ps \<Longrightarrow>
     (ps = [] \<and> s = p) \<or>
     (\<exists>rest. s = p @ sep # rest \<and> sep \<notin> set p \<and> n \<noteq> 0 \<and> ps = split sep (n - 1) rest)"
proof (induction s arbitrary: p ps)
  case Nil
  then show ?case by simp
next
  case (Cons c cs)
  show ?case
  proof (cases "c = sep \<and> n \<noteq> 0")
    case True
    with Cons.prems show ?thesis by auto
  next
    case False
    obtain q qs where q: "split sep n cs = q # qs"
      using split_not_Nil [of sep n cs] by (cases "split sep n cs") auto
    with False Cons.prems have p: "p = c # q" and ps: "ps = qs"
      by auto
    from Cons.IH [OF q] show ?thesis
    proof
      assume "qs = [] \<and> cs = q"
      with p ps show ?thesis by simp
    next
      assume "\<exists>rest. cs = q @ sep # rest \<and> sep \<notin> set q \<and> n \<noteq> 0 \<and> qs = split sep (n - 1) rest"
      then obtain rest where "cs = q @ sep # rest" "sep \<notin> set q" "n \<noteq> 0" "qs = split sep (n - 1) rest"
        by blast
      with False p ps show ?thesis by auto
    qed
  qed
qed

lemma split_three_D:
  assumes "split sep 2 s = [a, b, c]"
  shows "s = a @ sep # b @ sep # c \<and> sep \<notin> set a \<and> sep \<notin> set b"
proof -
  from split_Cons [OF assms] obtain r1
    where s: "s = a @ sep # r1" and a: "sep \<notin> set a" and r1: "split sep 1 r1 = [b, c]"
    by auto
  from split_Cons [OF r1] obtain r2
    where r1': "r1 = b @ sep # r2" and b: "sep \<notin> set b" and r2: "split sep 0 r2 = [c]"
    by auto
  from r2 have "r2 = c"
    by (simp add: split_zero)
  with s a r1' b show ?thesis
    by simp
qed

lemma map_int_Inl: "map_int ps = Inl e \<Longrightarrow> \<exists>l. e = InvalidLiteral l"
  by (induction ps) (auto split: sum.splits dest: py_int_Inl)

lemma map_int_Inr: "map_int ps = Inr is \<Longrightarrow> list_all2 (\<lambda>p i. py_int p = Inr i) ps is"
  by (induction ps arbitrary: "is") (auto split: sum.splits)

lemma Version_new_Inl: "Version_new is = Inl e \<Longrightarrow> e = TypeError"
  by (cases "is" rule: Version_new.cases) simp_all

lemma Version_new_Inr: "Version_new is = Inr v \<Longrightarrow> is = [major v, minor v, hotfix v]"
  by (cases "is" rule: Version_new.cases) auto

lemma parse_Inl: "parse s = Inl e \<Longrightarrow> e = TypeError \<or> (\<exists>l. e = InvalidLiteral l)"
  by (auto simp: parse_def split: sum.splits dest: map_int_Inl Version_new_Inl)

lemma parse_Inr:
  assumes "parse s = Inr v"
  shows "\<exists>a b c. s = a @ CHR ''.'' # b @ CHR ''.'' # c
           \<and> split (CHR ''.'') 2 s = [a, b, c]
           \<and> py_int a = Inr (major v) \<and> py_int b = Inr (minor v) \<and> py_int c = Inr (hotfix v)"
proof -
  from assms obtain "is" where m: "map_int (split (CHR ''.'') 2 s) = Inr is" and "Version_new is = Inr v"
    by (auto simp: parse_def split: sum.splits)
  then have "is": "is = [major v, minor v, hotfix v]"
    by (simp add: Version_new_Inr)
  from map_int_Inr [OF m] obtain a b c
    where sp: "split (CHR ''.'') 2 s = [a, b, c]"
      and "py_int a = Inr (major v)" "py_int b = Inr (minor v)" "py_int c = Inr (hotfix v)"
    unfolding "is" by (auto simp: list_all2_Cons2)
  with split_three_D [OF sp] show ?thesis
    by auto
qed

lemma parse_Inr_wellformed:
  assumes "parse s = Inr v"
  shows "length (split (CHR ''.'') (- 1) s) = 3
         \<and> (\<forall>p \<in> set (split (CHR ''.'') (- 1) s). \<exists>i. py_int p = Inr i)"
proof -
  from parse_Inr [OF assms] obtain a b c
    where s: "s = a @ CHR ''.'' # b @ CHR ''.'' # c" and sp: "split (CHR ''.'') 2 s = [a, b, c]"
      and ints: "py_int a = Inr (major v)" "py_int b = Inr (minor v)" "py_int c = Inr (hotfix v)"
    by blast
  from ints have "CHR ''.'' \<notin> set a" "CHR ''.'' \<notin> set b" "CHR ''.'' \<notin> set c"
    by (simp_all add: py_int_no_dot)
  then have "split (CHR ''.'') (- 1) s = [a, b, c]"
    unfolding s by (simp add: split_append_sep split_no_sep)
  with ints show ?thesis
    by auto
qed

subsection \<open>The text of an integer is canonical\<close>





section \<open>Parsing and printing versions\<close>




text \<open>
  Claim C3. A string that does not split at its dots into exactly three parts that
  \<^verbatim>\<open>int\<close> accepts is rejected by \<open>parse\<close>, which returns no \<open>Version\<close>: it raises the
  \<^verbatim>\<open>ValueError\<close> of \<^verbatim>\<open>int\<close> for a part that is not an integer (with more than two dots
  the third part still holds a dot), and the \<^verbatim>\<open>TypeError\<close> of the constructor when
  there are fewer than three parts. These two are the format errors of the script;
  \<^verbatim>\<open>argparse\<close> reports both as an invalid argument value.
\<close>

theorem C3_parse_rejects:
  assumes "\<not> (length (split (CHR ''.'') (- 1) s) = 3
              \<and> (\<forall>p \<in> set (split (CHR ''.'') (- 1) s). \<exists>i. py_int p = Inr i))"
  shows "parse s = Inl TypeError \<or> (\<exists>l. parse s = Inl (InvalidLiteral l))"
proof (cases "parse s")
  case (Inl e)
  with parse_Inl [OF Inl] show ?thesis
    by auto
next
  case (Inr v)
  from parse_Inr_wellformed [OF Inr] assms show ?thesis
    by blast
qed

theorem C3_parse_rejects_witness:
  "parse ''1.2'' = Inl TypeError
   \<and> parse ''1.2.3.4'' = Inl (InvalidLiteral ''3.4'')
   \<and> parse ''1.x.3'' = Inl (InvalidLiteral ''x'')"
proof -
  have "split (CHR ''.'') (- 1) ''1.2'' = [''1'', ''2'']"
    by code_simp
  then have "\<not> (length (split (CHR ''.'') (- 1) ''1.2'') = 3
              \<and> (\<forall>p \<in> set (split (CHR ''.'') (- 1) ''1.2''). \<exists>i. py_int p = Inr i))"
    by simp
  from C3_parse_rejects [OF this]
  have "parse ''1.2'' = Inl TypeError \<or> (\<exists>l. parse ''1.2'' = Inl (InvalidLiteral l))" .
  moreover have "parse ''1.2'' = Inl TypeError"
    by code_simp
  moreover have "parse ''1.2.3.4'' = Inl (InvalidLiteral ''3.4'')"
    by code_simp
  moreover have "parse ''1.x.3'' = Inl (InvalidLiteral ''x'')"
    by code_simp
  ultimately show ?thesis
    by blast
qed

text \<open>
  Claim C4, as amended. Every \<open>Version\<close> that \<open>parse\<close> returns has its three components,
  each the integer value of the corresponding part of the string; the components are
  non-negative when the string holds no minus sign. \<^verbatim>\<open>int\<close> accepts a sign, and nothing
  in the script rejects a negative component.
\<close>

theorem C4_version_components:
  assumes "parse s = Inr v"
  shows "(\<exists>a b c. split (CHR ''.'') 2 s = [a, b, c]
            \<and> py_int a = Inr (major v) \<and> py_int b = Inr (minor v) \<and> py_int c = Inr (hotfix v))
         \<and> (CHR ''-'' \<notin> set s \<longrightarrow> 0 \<le> major v \<and> 0 \<le> minor v \<and> 0 \<le> hotfix v)"
proof -
  from parse_Inr [OF assms] obtain a b c
    where s: "s = a @ CHR ''.'' # b @ CHR ''.'' # c" and sp: "split (CHR ''.'') 2 s = [a, b, c]"
      and ints: "py_int a = Inr (major v)" "py_int b = Inr (minor v)" "py_int c = Inr (hotfix v)"
    by blast
  have "0 \<le> major v \<and> 0 \<le> minor v \<and> 0 \<le> hotfix v" if "CHR ''-'' \<notin> set s"
  proof -
    from that s have "CHR ''-'' \<notin> set a" "CHR ''-'' \<notin> set b" "CHR ''-'' \<notin> set c"
      by simp_all
    with ints show ?thesis
      by (simp add: py_int_nonneg)
  qed
  with sp ints show ?thesis
    by blast
qed

theorem C4_version_components_witness:
  "parse ''4.1.0'' = Inr (Version 4 1 0)
   \<and> 0 \<le> major (Version 4 1 0) \<and> 0 \<le> minor (Version 4 1 0) \<and> 0 \<le> hotfix (Version 4 1 0)"
proof -
  have p: "parse ''4.1.0'' = Inr (Version 4 1 0)"
    by code_simp
  have "CHR ''-'' \<notin> set ''4.1.0''"
    by simp
  with C4_version_components [OF p] p show ?thesis
    by blast
qed

theorem C4_version_components_counterexample:
  "parse ''-1.2.3'' = Inr (Version (- 1) 2 3) \<and> major (Version (- 1) 2 3) < 0"
  by code_simp

section \<open>Sequencing of effects\<close>

lemma io_bind_InrE:
  assumes "io_bind m f tr = (Inr y, tr')"
  obtains x tr1 where "m tr = (Inr x, tr1)" and "f x tr1 = (Inr y, tr')"
  using assms by (auto simp: io_bind_def split: prod.splits sum.splits)

lemma io_bind_Inl: "m tr = (Inl e, tr1) \<Longrightarrow> io_bind m f tr = (Inl e, tr1)"
  by (simp add: io_bind_def)

lemma ensure_existing_cratedb_Inr:
  "ensure_existing_cratedb w v tr = (Inr x, tr') \<Longrightarrow> x = v"
  by (auto simp: ensure_existing_cratedb_def io_return_def io_raise_def
      elim!: io_bind_InrE split: if_splits)

text \<open>
  A run of \<open>main\<close> that ends without an exception has rendered the template once, with
  these bindings, and printed the text as its last step.
\<close>

lemma main_Inr:
  assumes "main w a tr = (Inr u, tr')"
  shows "\<exists>t crate crash jdk_url jdk_sha256 now text rest.
           tr' = Print text # Render t
                [(''CRATE_VERSION'', VVersion crate),
                 (''CRASH_VERSION'', VVersion crash),
                 (''JDK_VERSION'', VStr (Version_str (resolve_jdk_version (jdk_version a) (cratedb_version a)))),
                 (''JDK_URL'', VStr jdk_url),
                 (''JDK_SHA256'', VStr jdk_sha256),
                 (''BUILD_TIMESTAMP'', VStr now)] # rest"
  using assms unfolding main_def
  by (auto elim!: io_bind_InrE simp: render_def print_def dest!: ensure_existing_cratedb_Inr)

lemma main_world_ok:
  "main world_ok args_410 [] =
     (Inr (),
      [Print ''FROM centos:7'',
       Render ''FROM centos:7''
         [(''CRATE_VERSION'', VVersion (Version 4 1 0)),
          (''CRASH_VERSION'', VVersion (Version 0 24 2)),
          (''JDK_VERSION'', VStr ''12.0.1''),
          (''JDK_URL'', VStr ''https://download.java.net/java/GA/jdk12.0.1/69cfe15208a647278a19ef0990eea691/12/GPL/openjdk-12.0.1_linux-x64_bin.tar.gz''),
          (''JDK_SHA256'', VStr ''c0ffee''),
          (''BUILD_TIMESTAMP'', VStr ''2019-06-01T00:00:00'')],
       Utcnow,
       Urlopen (GET ''https://crate.io/versions.json''),
       Urlopen (HEAD ''https://cdn.crate.io/downloads/releases/crate-4.1.0.tar.gz''),
       GetTemplate ''Dockerfile.j2'',
       PathExists ''Dockerfile_4.1.j2'',
       Urlopen (GET ''https://download.java.net/java/GA/jdk12.0.1/69cfe15208a647278a19ef0990eea691/12/GPL/openjdk-12.0.1_linux-x64_bin.tar.gz.sha256''),
       Urlopen (HEAD ''https://cdn.crate.io/downloads/releases/crate-4.1.0.tar.gz'')])"
  by code_simp

section \<open>The default Java version\<close>

text \<open>
  Claim C1. With no JDK version given, the resolved Java version is \<open>(12, 0, 1)\<close> when
  the major version of the database is at least 4 and \<open>(11, 0, 1)\<close> when it is below 4,
  for every database version; a JDK version that the caller gives is used as it is. The
  resolved version is the one that a successful run of \<open>main\<close> binds to
  \<^verbatim>\<open>JDK_VERSION\<close> when it renders the template.
\<close>

theorem C1_default_jdk_version:
  "resolve_jdk_version None cratedb = (if 4 \<le> major cratedb then Version 12 0 1 else Version 11 0 1)
   \<and> resolve_jdk_version (Some v) cratedb = v
   \<and> (main w a tr = (Inr u, tr') \<longrightarrow>
        (\<exists>t bs text rest.
           tr' = Print text # Render t bs # rest
           \<and> map_of bs ''JDK_VERSION'' =
               Some (VStr (Version_str
                 (case jdk_version a of
                    None \<Rightarrow> if 4 \<le> major (cratedb_version a) then Version 12 0 1 else Version 11 0 1
                  | Some given \<Rightarrow> given)))))"
proof (intro conjI impI)
  show "resolve_jdk_version None cratedb = (if 4 \<le> major cratedb then Version 12 0 1 else Version 11 0 1)"
    by (simp add: resolve_jdk_version_def jdk_version_default_def)
  show "resolve_jdk_version (Some v) cratedb = v"
    by (simp add: resolve_jdk_version_def)
next
  assume "main w a tr = (Inr u, tr')"
  from main_Inr [OF this] obtain t crate crash jdk_url jdk_sha256 now out rest
    where tr': "tr' = Print out # Render t
                [(''CRATE_VERSION'', VVersion crate),
                 (''CRASH_VERSION'', VVersion crash),
                 (''JDK_VERSION'', VStr (Version_str (resolve_jdk_version (jdk_version a) (cratedb_version a)))),
                 (''JDK_URL'', VStr jdk_url),
                 (''JDK_SHA256'', VStr jdk_sha256),
                 (''BUILD_TIMESTAMP'', VStr now)] # rest"
    by blast
  have "resolve_jdk_version (jdk_version a) (cratedb_version a) =
          (case jdk_version a of
             None \<Rightarrow> if 4 \<le> major (cratedb_version a) then Version 12 0 1 else Version 11 0 1
           | Some given \<Rightarrow> given)"
    by (simp add: resolve_jdk_version_def jdk_version_default_def split: option.splits)
  with tr' show "\<exists>t bs text rest.
           tr' = Print text # Render t bs # rest
           \<and> map_of bs ''JDK_VERSION'' =
               Some (VStr (Version_str
                 (case jdk_version a of
                    None \<Rightarrow> if 4 \<le> major (cratedb_version a) then Version 12 0 1 else Version 11 0 1
                  | Some given \<Rightarrow> given)))"
    by simp
qed

theorem C1_default_jdk_version_witness:
  "fst (main world_ok args_410 []) = Inr ()
   \<and> (\<exists>t bs text rest.
         snd (main world_ok args_410 []) = Print text # Render t bs # rest
         \<and> map_of bs ''JDK_VERSION'' = Some (VStr ''12.0.1''))"
proof -
  obtain tr' where run: "main world_ok args_410 [] = (Inr (), tr')"
    using main_world_ok by simp
  have "Version_str (Version 12 0 1) = ''12.0.1''"
    by code_simp
  with C1_default_jdk_version [of _ _ world_ok args_410 "[]" "()" tr'] run
  show ?thesis
    by (simp add: args_410_def)
qed

section \<open>The existence probe\<close>

lemma url_exists_True:
  "url_exists w url tr = (Inr True, tr') \<longleftrightarrow>
     (\<exists>r. urlopen w tr (HEAD url) = Inr r) \<and> tr' = Urlopen (HEAD url) # tr"
  by (auto simp: url_exists_def split: sum.splits)

lemma url_exists_False:
  "url_exists w url tr = (Inr False, tr') \<longleftrightarrow>
     (\<exists>e. urlopen w tr (HEAD url) = Inl e \<and> is_URLError e) \<and> tr' = Urlopen (HEAD url) # tr"
  by (auto simp: url_exists_def split: sum.splits)

lemma url_exists_Inl:
  "url_exists w url tr = (Inl x, tr') \<longleftrightarrow>
     (\<exists>e. urlopen w tr (HEAD url) = Inl e \<and> \<not> is_URLError e \<and> x = External e)
     \<and> tr' = Urlopen (HEAD url) # tr"
  by (auto simp: url_exists_def split: sum.splits)

lemma ensure_existing_cratedb_found:
  "url_exists w (cratedb_url v) tr = (Inr True, tr1) \<Longrightarrow>
     ensure_existing_cratedb w v tr = (Inr v, tr1)"
  by (simp add: ensure_existing_cratedb_def io_bind_def io_return_def)

lemma ensure_existing_cratedb_missing:
  "url_exists w (cratedb_url v) tr = (Inr False, tr1) \<Longrightarrow>
     ensure_existing_cratedb w v tr =
       (Inl (ValueError (''No release found for CrateDB '' @ Version_str v)), tr1)"
  by (simp add: ensure_existing_cratedb_def io_bind_def io_raise_def)

lemma jdk_url_and_sha_unknown:
  "JDK_URLS (as_tuple v) = None \<Longrightarrow>
     jdk_url_and_sha w v tr =
       (Inl (ValueError (''No URL for JDK version '' @ Version_str v @ '' found.'')), tr)"
  by (simp add: jdk_url_and_sha_def io_raise_def)

text \<open>
  Claim C9, as amended. \<open>url_exists\<close> returns \<^verbatim>\<open>True\<close> exactly when the request yields a
  response, returns \<^verbatim>\<open>False\<close> exactly when the request raises \<^verbatim>\<open>URLError\<close> (or its
  subclass \<^verbatim>\<open>HTTPError\<close>), and lets any other exception of the request pass to the
  caller; in each case it makes the one \<^verbatim>\<open>HEAD\<close> request. The \<^verbatim>\<open>except\<close> clause of
  line 50 names \<^verbatim>\<open>URLError\<close> only, so the probe is not total over the failures of the
  transport.
\<close>

theorem C9_url_exists:
  "(url_exists w url tr = (Inr True, tr') \<longleftrightarrow>
      (\<exists>r. urlopen w tr (HEAD url) = Inr r) \<and> tr' = Urlopen (HEAD url) # tr)
   \<and> (url_exists w url tr = (Inr False, tr') \<longleftrightarrow>
      (\<exists>e. urlopen w tr (HEAD url) = Inl e \<and> is_URLError e) \<and> tr' = Urlopen (HEAD url) # tr)
   \<and> (url_exists w url tr = (Inl x, tr') \<longleftrightarrow>
      (\<exists>e. urlopen w tr (HEAD url) = Inl e \<and> \<not> is_URLError e \<and> x = External e)
      \<and> tr' = Urlopen (HEAD url) # tr)"
  by (simp only: url_exists_True url_exists_False url_exists_Inl)

theorem C9_url_exists_witness:
  "url_exists world_ok ''https://crate.io'' [] = (Inr True, [Urlopen (HEAD ''https://crate.io'')])
   \<and> url_exists world_404 ''https://crate.io'' [] = (Inr False, [Urlopen (HEAD ''https://crate.io'')])"
proof -
  have ok: "(\<exists>r. urlopen world_ok [] (HEAD ''https://crate.io'') = Inr r)"
    by (simp add: world_ok_def)
  have nf: "(\<exists>e. urlopen world_404 [] (HEAD ''https://crate.io'') = Inl e \<and> is_URLError e)"
    by (simp add: world_404_def world_ok_def)
  from C9_url_exists [of world_ok "''https://crate.io''" "[]" "[Urlopen (HEAD ''https://crate.io'')]"] ok
  have 1: "url_exists world_ok ''https://crate.io'' [] = (Inr True, [Urlopen (HEAD ''https://crate.io'')])"
    by blast
  from C9_url_exists [of world_404 "''https://crate.io''" "[]" "[Urlopen (HEAD ''https://crate.io'')]"] nf
  have 2: "url_exists world_404 ''https://crate.io'' [] = (Inr False, [Urlopen (HEAD ''https://crate.io'')])"
    by blast
  from 1 2 show ?thesis ..
qed

theorem C9_url_exists_counterexample:
  "urlopen world_disconnected [] (HEAD ''https://cdn.crate.io/downloads/releases/crate-4.1.0.tar.gz'')
     = Inl (OtherExn ''http.client.RemoteDisconnected'')
   \<and> url_exists world_disconnected ''https://cdn.crate.io/downloads/releases/crate-4.1.0.tar.gz'' []
     = (Inl (External (OtherExn ''http.client.RemoteDisconnected'')),
        [Urlopen (HEAD ''https://cdn.crate.io/downloads/releases/crate-4.1.0.tar.gz'')])"
  by (simp add: url_exists_def world_disconnected_def world_ok_def)

section \<open>Resolving the database and client versions\<close>

text \<open>
  Claim C6. When the existence probe reports \<^verbatim>\<open>False\<close> for the archive
  \<^verbatim>\<open>crate-{version}.tar.gz\<close> of a database version, \<open>ensure_existing_cratedb\<close> raises
  the \<^verbatim>\<open>ValueError\<close> whose message names that version, and so does \<open>main\<close> called
  with that version: its trace ends with the probe, so no template was loaded or
  rendered and nothing was printed.
\<close>

theorem C6_missing_release:
  assumes "url_exists w (cratedb_url v) tr = (Inr False, tr1)"
  shows "cratedb_url v = ''https://cdn.crate.io/downloads/releases/crate-'' @ Version_str v @ ''.tar.gz''
         \<and> ensure_existing_cratedb w v tr =
             (Inl (ValueError (''No release found for CrateDB '' @ Version_str v)), tr1)
         \<and> (cratedb_version a = v \<longrightarrow>
              main w a tr = (Inl (ValueError (''No release found for CrateDB '' @ Version_str v)), tr1))
         \<and> tr1 = Urlopen (HEAD (cratedb_url v)) # tr"
proof (intro conjI impI)
  show "cratedb_url v = ''https://cdn.crate.io/downloads/releases/crate-'' @ Version_str v @ ''.tar.gz''"
    by (simp add: cratedb_url_def)
  show missing: "ensure_existing_cratedb w v tr =
             (Inl (ValueError (''No release found for CrateDB '' @ Version_str v)), tr1)"
    using assms by (rule ensure_existing_cratedb_missing)
  show "tr1 = Urlopen (HEAD (cratedb_url v)) # tr"
    using assms by (simp add: url_exists_False)
  assume "cratedb_version a = v"
  with missing show "main w a tr =
      (Inl (ValueError (''No release found for CrateDB '' @ Version_str v)), tr1)"
    by (simp add: main_def io_bind_Inl)
qed

theorem C6_missing_release_witness:
  "main world_404 args_410 [] =
     (Inl (ValueError ''No release found for CrateDB 4.1.0''),
      [Urlopen (HEAD ''https://cdn.crate.io/downloads/releases/crate-4.1.0.tar.gz'')])"
proof -
  have u: "cratedb_url (Version 4 1 0) = ''https://cdn.crate.io/downloads/releases/crate-4.1.0.tar.gz''"
    by code_simp
  have s: "Version_str (Version 4 1 0) = ''4.1.0''"
    by code_simp
  have "url_exists world_404 (cratedb_url (Version 4 1 0)) [] =
          (Inr False, [Urlopen (HEAD (cratedb_url (Version 4 1 0)))])"
    by (simp add: url_exists_def world_404_def world_ok_def)
  from C6_missing_release [OF this, of args_410] u s show ?thesis
    by (simp add: args_410_def)
qed

text \<open>
  Claim C7. Without a client version, \<open>ensure_existing_crash\<close> is \<open>latest_crash\<close>: it
  returns what \<open>parse\<close> makes of the field of the metadata document that names the
  latest client release (the key \<^verbatim>\<open>crash\<close> of \<^verbatim>\<open>versions.json\<close>), and the one request it
  makes is the \<^verbatim>\<open>GET\<close> of that document, so the value is not probed. With a client
  version \<open>v\<close>, it returns \<open>v\<close> when the probe of the standalone artifact reports
  \<^verbatim>\<open>True\<close> and raises the \<^verbatim>\<open>ValueError\<close> naming \<open>v\<close> when the probe reports \<^verbatim>\<open>False\<close>.
\<close>

theorem C7_crash_resolution:
  "ensure_existing_crash w None tr = latest_crash w tr
   \<and> (urlopen w tr (GET ''https://crate.io/versions.json'') = Inr r
        \<and> json_loads w (body r) = Inr (JObject items)
        \<and> map_of items ''crash'' = Some (JString s)
      \<longrightarrow> ensure_existing_crash w None tr =
            (parse s, [Urlopen (GET ''https://crate.io/versions.json'')] @ tr))
   \<and> (url_exists w (''https://cdn.crate.io/downloads/releases/crash_standalone_'' @ Version_str v) tr
          = (Inr True, tr1)
      \<longrightarrow> ensure_existing_crash w (Some v) tr = (Inr v, tr1))
   \<and> (url_exists w (''https://cdn.crate.io/downloads/releases/crash_standalone_'' @ Version_str v) tr
          = (Inr False, tr1)
      \<longrightarrow> ensure_existing_crash w (Some v) tr =
            (Inl (ValueError (''No release found for crash '' @ Version_str v)), tr1))"
  by (simp add: ensure_existing_crash_def latest_crash_def crash_url_def io_bind_def
      io_return_def io_raise_def io_lift_def do_urlopen_def external_def getitem_def
      parse_json_def)

theorem C7_crash_resolution_witness:
  "ensure_existing_crash world_ok None [] =
     (Inr (Version 0 24 2), [Urlopen (GET ''https://crate.io/versions.json'')])
   \<and> ensure_existing_crash world_ok (Some (Version 0 24 2)) [] =
     (Inr (Version 0 24 2),
      [Urlopen (HEAD ''https://cdn.crate.io/downloads/releases/crash_standalone_0.24.2'')])
   \<and> ensure_existing_crash world_404 (Some (Version 0 24 2)) [] =
     (Inl (ValueError ''No release found for crash 0.24.2''),
      [Urlopen (HEAD ''https://cdn.crate.io/downloads/releases/crash_standalone_0.24.2'')])"
proof -
  let ?u = "''https://cdn.crate.io/downloads/releases/crash_standalone_'' @ Version_str (Version 0 24 2)"
  let ?r = "\<lparr> body = ''c0ffee'' \<rparr>"
  let ?items = "[(''crash'', JString ''0.24.2'')]"
  have p: "parse ''0.24.2'' = Inr (Version 0 24 2)"
    by code_simp
  have s: "Version_str (Version 0 24 2) = ''0.24.2''"
    by code_simp
  have g: "urlopen world_ok [] (GET ''https://crate.io/versions.json'') = Inr ?r
        \<and> json_loads world_ok (body ?r) = Inr (JObject ?items)
        \<and> map_of ?items ''crash'' = Some (JString ''0.24.2'')"
    by (simp add: world_ok_def)
  have t: "url_exists world_ok ?u [] = (Inr True, [Urlopen (HEAD ?u)])"
    by (simp add: url_exists_def world_ok_def)
  have f: "url_exists world_404 ?u [] = (Inr False, [Urlopen (HEAD ?u)])"
    by (simp add: url_exists_def world_404_def world_ok_def)
  have 1: "ensure_existing_crash world_ok None [] =
             (parse ''0.24.2'', [Urlopen (GET ''https://crate.io/versions.json'')] @ [])"
    using C7_crash_resolution [of world_ok "[]" ?r ?items "''0.24.2''"] g by blast
  have 2: "ensure_existing_crash world_ok (Some (Version 0 24 2)) [] =
             (Inr (Version 0 24 2), [Urlopen (HEAD ?u)])"
    using C7_crash_resolution [of world_ok "[]" _ _ _ "Version 0 24 2" "[Urlopen (HEAD ?u)]"] t
    by blast
  have 3: "ensure_existing_crash world_404 (Some (Version 0 24 2)) [] =
             (Inl (ValueError (''No release found for crash '' @ Version_str (Version 0 24 2))),
              [Urlopen (HEAD ?u)])"
    using C7_crash_resolution [of world_404 "[]" _ _ _ "Version 0 24 2" "[Urlopen (HEAD ?u)]"] f
    by blast
  from 1 2 3 show ?thesis
    by (simp add: p s)
qed

section \<open>Resolving the Java version\<close>

text \<open>
  Claim C5. For a JDK version that is not a key of \<open>JDK_URLS\<close>, \<open>jdk_url_and_sha\<close>
  raises the \<^verbatim>\<open>ValueError\<close> whose message names the version and leaves the trace as it
  was: nothing is requested to find the version elsewhere, and the table is a constant.
  \<open>main\<close>, given such a version with \<^verbatim>\<open>--jdk-version\<close> and a database release that
  exists, ends with that exception after the one probe of the release.
\<close>

theorem C5_unknown_jdk:
  assumes "JDK_URLS (as_tuple v) = None"
  shows "jdk_url_and_sha w v tr =
           (Inl (ValueError (''No URL for JDK version '' @ Version_str v @ '' found.'')), tr)
         \<and> (jdk_version a = Some v
              \<and> url_exists w (cratedb_url (cratedb_version a)) tr = (Inr True, tr1)
            \<longrightarrow> main w a tr =
                  (Inl (ValueError (''No URL for JDK version '' @ Version_str v @ '' found.'')),
                   Urlopen (HEAD (cratedb_url (cratedb_version a))) # tr))"
proof (intro conjI impI)
  show unknown: "jdk_url_and_sha w v tr =
           (Inl (ValueError (''No URL for JDK version '' @ Version_str v @ '' found.'')), tr)"
    using assms by (rule jdk_url_and_sha_unknown)
  assume a: "jdk_version a = Some v
              \<and> url_exists w (cratedb_url (cratedb_version a)) tr = (Inr True, tr1)"
  then have tr1: "tr1 = Urlopen (HEAD (cratedb_url (cratedb_version a))) # tr"
    by (simp add: url_exists_True)
  from a have "ensure_existing_cratedb w (cratedb_version a) tr = (Inr (cratedb_version a), tr1)"
    by (simp add: ensure_existing_cratedb_found)
  moreover have "jdk_url_and_sha w v tr1 =
           (Inl (ValueError (''No URL for JDK version '' @ Version_str v @ '' found.'')), tr1)"
    using assms by (rule jdk_url_and_sha_unknown)
  ultimately show "main w a tr =
                  (Inl (ValueError (''No URL for JDK version '' @ Version_str v @ '' found.'')),
                   Urlopen (HEAD (cratedb_url (cratedb_version a))) # tr)"
    using a tr1 by (simp add: main_def io_bind_def resolve_jdk_version_def)
qed

theorem C5_unknown_jdk_witness:
  "jdk_url_and_sha world_ok (Version 9 0 1) [] =
     (Inl (ValueError ''No URL for JDK version 9.0.1 found.''), [])
   \<and> main world_ok (args_410 \<lparr> jdk_version := Some (Version 9 0 1) \<rparr>) [] =
       (Inl (ValueError ''No URL for JDK version 9.0.1 found.''),
        [Urlopen (HEAD ''https://cdn.crate.io/downloads/releases/crate-4.1.0.tar.gz'')])"
proof -
  have k: "JDK_URLS (as_tuple (Version 9 0 1)) = None"
    by (simp add: JDK_URLS_def as_tuple_def)
  have s: "Version_str (Version 9 0 1) = ''9.0.1''"
    by code_simp
  have u: "cratedb_url (Version 4 1 0) = ''https://cdn.crate.io/downloads/releases/crate-4.1.0.tar.gz''"
    by code_simp
  have "url_exists world_ok (cratedb_url (Version 4 1 0)) [] =
          (Inr True, [Urlopen (HEAD (cratedb_url (Version 4 1 0)))])"
    by (simp add: url_exists_def world_ok_def)
  with C5_unknown_jdk [OF k, of world_ok "[]" "args_410 \<lparr> jdk_version := Some (Version 9 0 1) \<rparr>"
      "[Urlopen (HEAD (cratedb_url (Version 4 1 0)))]"] s u
  show ?thesis
    by (simp add: args_410_def)
qed

text \<open>
  Claim C10. The two default versions \<open>(12, 0, 1)\<close> and \<open>(11, 0, 1)\<close> are keys of
  \<open>JDK_URLS\<close>. So for every database version, when no JDK version is given, the lookup
  in \<open>jdk_url_and_sha\<close> finds a URL: the function does not raise its \<^verbatim>\<open>ValueError\<close>,
  and goes on to request the checksum.
\<close>

theorem C10_defaults_in_table:
  "JDK_URLS (12, 0, 1) \<noteq> None \<and> JDK_URLS (11, 0, 1) \<noteq> None
   \<and> JDK_URLS (as_tuple (resolve_jdk_version None cratedb)) \<noteq> None
   \<and> (\<forall>msg. fst (jdk_url_and_sha w (resolve_jdk_version None cratedb) tr) \<noteq> Inl (ValueError msg))
   \<and> (\<exists>url. JDK_URLS (as_tuple (resolve_jdk_version None cratedb)) = Some url
         \<and> snd (jdk_url_and_sha w (resolve_jdk_version None cratedb) tr)
             = Urlopen (GET (url @ ''.sha256'')) # tr)"
proof -
  have keys: "JDK_URLS (12, 0, 1) \<noteq> None" "JDK_URLS (11, 0, 1) \<noteq> None"
    by (simp_all add: JDK_URLS_def)
  have dflt: "as_tuple (resolve_jdk_version None cratedb) = (12, 0, 1)
              \<or> as_tuple (resolve_jdk_version None cratedb) = (11, 0, 1)"
    by (simp add: resolve_jdk_version_def jdk_version_default_def as_tuple_def)
  with keys obtain url where url: "JDK_URLS (as_tuple (resolve_jdk_version None cratedb)) = Some url"
    by auto
  have res: "fst (jdk_url_and_sha w (resolve_jdk_version None cratedb) tr) \<noteq> Inl (ValueError msg)" for msg
    using url
    by (auto simp: jdk_url_and_sha_def io_bind_def io_lift_def io_return_def do_urlopen_def
        external_def split: sum.splits prod.splits)
  have trace: "snd (jdk_url_and_sha w (resolve_jdk_version None cratedb) tr)
             = Urlopen (GET (url @ ''.sha256'')) # tr"
    using url
    by (auto simp: jdk_url_and_sha_def io_bind_def io_lift_def io_return_def do_urlopen_def
        external_def split: sum.splits prod.splits)
  from keys url res trace show ?thesis
    by simp
qed

section \<open>Selecting the template\<close>




end
